theory Spec2Isabelle
  imports Main "HOL-Library.Sublist" "HOL-Library.Word"
begin

section \<open>Strings and paths\<close>

text \<open>
  Python strings are modelled as \<open>string\<close>, one \<open>char\<close> per code point below 256.
  Python integers are \<open>int\<close>. Paths follow the POSIX flavour of \<open>pathlib\<close>.
\<close>

definition py_isspace :: "char \<Rightarrow> bool" where
  \<comment> \<open>\<open>str.isspace\<close> for one code point below 256\<close>
  "py_isspace c = (c \<in> set [CHR 0x09, CHR 0x0A, CHR 0x0B, CHR 0x0C, CHR 0x0D,
                             CHR 0x1C, CHR 0x1D, CHR 0x1E, CHR 0x1F, CHR 0x20,
                             CHR 0x85, CHR 0xA0])"

definition py_strip :: "string \<Rightarrow> string" where
  \<comment> \<open>\<open>s.strip()\<close>\<close>
  "py_strip s = rev (dropWhile py_isspace (rev (dropWhile py_isspace s)))"

definition py_lower_char :: "char \<Rightarrow> char" where
  \<comment> \<open>\<open>str.lower\<close> on one code point below 256: A-Z and the Latin-1 capitals\<close>
  "py_lower_char c =
     (let n = (of_char c :: nat) in
      if (65 \<le> n \<and> n \<le> 90) \<or> (192 \<le> n \<and> n \<le> 222 \<and> n \<noteq> 215)
      then char_of (n + 32) else c)"

definition py_lower :: "string \<Rightarrow> string" where
  "py_lower s = map py_lower_char s"

fun startswith :: "string \<Rightarrow> string \<Rightarrow> bool" where
  "startswith s [] = True"
| "startswith [] (p # ps) = False"
| "startswith (c # cs) (p # ps) = (c = p \<and> startswith cs ps)"

fun str_in :: "string \<Rightarrow> string \<Rightarrow> bool" where
  \<comment> \<open>\<open>sub in s\<close> on strings\<close>
  "str_in sub [] = (sub = [])"
| "str_in sub (c # cs) = (startswith (c # cs) sub \<or> str_in sub cs)"

fun split_sep :: "char \<Rightarrow> string \<Rightarrow> string list" where
  \<comment> \<open>\<open>s.split(sep)\<close> for a one-character separator\<close>
  "split_sep sep [] = [[]]"
| "split_sep sep (c # cs) =
     (if c = sep then [] # split_sep sep cs
      else (case split_sep sep cs of
              [] \<Rightarrow> [[c]]
            | w # ws \<Rightarrow> (c # w) # ws))"

datatype path = Path (anchor: string) (tail: "string list")

text \<open>
  A \<open>PurePosixPath\<close> after parsing: \<open>anchor\<close> is the root (\<open>''''\<close>, \<open>/\<close> or \<open>//\<close>),
  \<open>tail\<close> the components. \<open>Path(".")\<close> is \<open>Path '''' []\<close>.
\<close>

definition splitroot :: "string \<Rightarrow> string \<times> string" where
  \<comment> \<open>\<open>posixpath.splitroot\<close>, without the always empty drive\<close>
  "splitroot p =
     (if take 1 p \<noteq> ''/'' then ('''', p)
      else if take 1 (drop 1 p) \<noteq> ''/'' \<or> take 1 (drop 2 p) = ''/'' then (''/'', drop 1 p)
      else (take 2 p, drop 2 p))"

definition parse_path :: "string \<Rightarrow> path" where
  \<comment> \<open>\<open>Path(s)\<close>: empty and \<open>.\<close> components are dropped, \<open>..\<close> is kept\<close>
  "parse_path s =
     (case splitroot s of
        (root, rel) \<Rightarrow> Path root (filter (\<lambda>x. x \<noteq> [] \<and> x \<noteq> ''.'') (split_sep CHR ''/'' rel)))"

definition posix_join_step :: "string \<Rightarrow> string \<Rightarrow> string" where
  \<comment> \<open>one round of the loop of \<open>posixpath.join\<close>\<close>
  "posix_join_step p b =
     (if startswith b ''/'' then b
      else if p = [] \<or> last p = CHR ''/'' then p @ b
      else p @ ''/'' @ b)"

definition posix_join :: "string \<Rightarrow> string list \<Rightarrow> string" where
  "posix_join a bs = foldl posix_join_step a bs"

definition Path_of :: "string list \<Rightarrow> path" where
  \<comment> \<open>\<open>Path(*args)\<close>\<close>
  "Path_of args =
     (case args of
        [] \<Rightarrow> parse_path []
      | a # bs \<Rightarrow> parse_path (posix_join a bs))"

definition parts :: "path \<Rightarrow> string list" where
  "parts p = (if anchor p = [] then tail p else anchor p # tail p)"

definition is_absolute :: "path \<Rightarrow> bool" where
  "is_absolute p = (anchor p \<noteq> [])"

definition path_div :: "path \<Rightarrow> path \<Rightarrow> path" where
  \<comment> \<open>\<open>p / q\<close>: an absolute right operand replaces the left one\<close>
  "path_div p q = (if is_absolute q then q else Path (anchor p) (tail p @ tail q))"

definition parents :: "path \<Rightarrow> path list" where
  \<comment> \<open>\<open>p.parents\<close>, nearest first\<close>
  "parents p = map (\<lambda>k. Path (anchor p) (take k (tail p))) (rev [0..<length (tail p)])"

definition name :: "path \<Rightarrow> string" where
  "name p = (if tail p = [] then [] else last (tail p))"

fun rfind_dot :: "string \<Rightarrow> nat option" where
  \<comment> \<open>\<open>s.rfind('.')\<close>, \<open>None\<close> for -1\<close>
  "rfind_dot [] = None"
| "rfind_dot (c # cs) =
     (case rfind_dot cs of
        Some i \<Rightarrow> Some (Suc i)
      | None \<Rightarrow> (if c = CHR ''.'' then Some 0 else None))"

definition suffix_of :: "path \<Rightarrow> string" where
  \<comment> \<open>\<open>p.suffix\<close>\<close>
  "suffix_of p =
     (case rfind_dot (name p) of
        None \<Rightarrow> []
      | Some i \<Rightarrow> (if 0 < i \<and> i < length (name p) - 1 then drop i (name p) else []))"

definition stem :: "path \<Rightarrow> string" where
  \<comment> \<open>\<open>p.stem\<close>\<close>
  "stem p =
     (case rfind_dot (name p) of
        None \<Rightarrow> name p
      | Some i \<Rightarrow> (if 0 < i \<and> i < length (name p) - 1 then take i (name p) else name p))"

definition with_suffix :: "path \<Rightarrow> string \<Rightarrow> path option" where
  \<comment> \<open>\<open>p.with_suffix(sfx)\<close> for a well-formed \<open>sfx\<close>; \<open>None\<close> is the ValueError
      raised for a path with an empty name\<close>
  "with_suffix p sfx =
     (if name p = [] then None
      else Some (Path (anchor p)
                   (butlast (tail p) @
                    [take (length (name p) - length (suffix_of p)) (name p) @ sfx])))"

definition relative_to :: "path \<Rightarrow> path \<Rightarrow> path option" where
  \<comment> \<open>\<open>p.relative_to(base)\<close>; \<open>None\<close> is the ValueError\<close>
  "relative_to p base =
     (if anchor p = anchor base \<and> prefix (tail base) (tail p)
      then Some (Path [] (drop (length (tail base)) (tail p))) else None)"

definition str_of_path :: "path \<Rightarrow> string" where
  \<comment> \<open>\<open>str(p)\<close>\<close>
  "str_of_path p =
     (if anchor p = [] \<and> tail p = [] then ''.''
      else anchor p @ (case tail p of [] \<Rightarrow> [] | a # bs \<Rightarrow> foldl (\<lambda>s b. s @ ''/'' @ b) a bs))"

section \<open>Subdirectory sanitation (web upload)\<close>

definition safe_subdir :: "string \<Rightarrow> path" where
  \<comment> \<open>the same function in \<open>webp_uploader/app.py\<close> and \<open>imgtowebp/web/app.py\<close>\<close>
  "safe_subdir subdir0 =
     (let subdir = py_strip subdir0 in
      if subdir = [] then parse_path ''.''
      else
        let candidate = parse_path subdir in
        if is_absolute candidate then parse_path ''.''
        else
          let cleaned_parts = filter (\<lambda>part. part \<notin> set ['''', ''.'', ''..'']) (parts candidate) in
          if cleaned_parts = [] then parse_path ''.'' else Path_of cleaned_parts)"

section \<open>Quality field of the upload form\<close>

definition DEFAULT_QUALITY :: int where
  "DEFAULT_QUALITY = 80"

definition is_digit :: "char \<Rightarrow> bool" where
  "is_digit c = (c \<in> set ''0123456789'')"

definition digit_val :: "char \<Rightarrow> int" where
  "digit_val c = int (of_char c) - 48"

fun py_digits :: "string \<Rightarrow> string option" where
  \<comment> \<open>a digit, then digits each preceded by at most one underscore; the digits\<close>
  "py_digits [] = None"
| "py_digits [c] = (if is_digit c then Some [c] else None)"
| "py_digits (c # d # cs) =
     (if \<not> is_digit c then None
      else if d = CHR ''_'' then map_option ((#) c) (py_digits cs)
      else map_option ((#) c) (py_digits (d # cs)))"

definition py_int :: "string \<Rightarrow> int option" where
  \<comment> \<open>\<open>int(s)\<close> in base 10; \<open>None\<close> is the ValueError, also raised beyond the
      default limit of 4300 digits\<close>
  "py_int s =
     (case py_strip s of
        [] \<Rightarrow> None
      | c # cs \<Rightarrow>
          (let neg = (c = CHR ''-'');
               body = (if c = CHR ''-'' \<or> c = CHR ''+'' then cs else c # cs)
           in case py_digits body of
                None \<Rightarrow> None
              | Some ds \<Rightarrow>
                  (if 4300 < length ds then None
                   else let v = foldl (\<lambda>acc d. 10 * acc + digit_val d) 0 ds
                        in Some (if neg then - v else v))))"

definition form_quality_raw :: "string option \<Rightarrow> string" where
  \<comment> \<open>\<open>request.form.get("quality", str(DEFAULT_QUALITY))\<close>\<close>
  "form_quality_raw field = (case field of None \<Rightarrow> ''80'' | Some s \<Rightarrow> s)"

definition upload_quality :: "string option \<Rightarrow> int" where
  \<comment> \<open>\<open>imgtowebp/web/app.py\<close>, lines 74 to 83\<close>
  "upload_quality field =
     (let quality = (case py_int (form_quality_raw field) of
                       None \<Rightarrow> DEFAULT_QUALITY
                     | Some q \<Rightarrow> q)
      in max 0 (min 100 quality))"

definition uploader_quality :: "string option \<Rightarrow> int" where
  \<comment> \<open>\<open>webp_uploader/app.py\<close>, lines 78 to 90\<close>
  "uploader_quality field =
     (let quality = (case py_int (form_quality_raw field) of
                       None \<Rightarrow> DEFAULT_QUALITY
                     | Some q \<Rightarrow> q);
          quality = (if quality < 0 then 0 else quality);
          quality = (if quality > 100 then 100 else quality)
      in quality)"

section \<open>Images and the environment\<close>

type_synonym bytes = "8 word list"

record image =
  mode :: string
  bands :: "string list"

definition convert_mode :: "image \<Rightarrow> string \<Rightarrow> image" where
  \<comment> \<open>\<open>img.convert(m)\<close> for the modes RGB and RGBA, whose band names are their letters\<close>
  "convert_mode img m = img\<lparr>mode := m, bands := map (\<lambda>c. [c]) m\<rparr>"

definition ensure_webp_compatible_mode :: "image \<Rightarrow> image" where
  \<comment> \<open>the same function in \<open>core.py\<close>, \<open>convert_to_webp.py\<close> and \<open>webp_uploader/app.py\<close>\<close>
  "ensure_webp_compatible_mode img =
     (if mode img \<in> set [''RGB'', ''RGBA''] then img
      else if ''A'' \<in> set (bands img) then convert_mode img ''RGBA''
      else convert_mode img ''RGB'')"

text \<open>
  The file system, the image codec and \<open>werkzeug\<close>'s \<open>secure_filename\<close> are outside the
  repository. They are a record of operations on a state \<open>'fs\<close>, and every theorem holds for
  every such record. An operation that can raise returns the text of the exception: in
  \<open>Inl\<close> for a read, next to the state it leaves behind for a write. \<open>Path.exists\<close> and
  \<open>Path.is_file\<close> are among them: they answer \<open>False\<close> when the path is not found and
  raise any other \<open>OSError\<close> of the \<open>stat\<close> call they make, such as a
  \<open>PermissionError\<close>. \<open>Path.resolve\<close> raises on a loop of symbolic links. A generator
  (\<open>glob\<close>, \<open>rglob\<close>, \<open>iterdir\<close>) is the list of the paths it yields, on the state at
  the start of the loop that consumes it, and the exception that ends it, if one does.
\<close>

record 'fs env =
  fs_exists :: "'fs \<Rightarrow> path \<Rightarrow> string + bool"
  fs_is_file :: "'fs \<Rightarrow> path \<Rightarrow> string + bool"
  fs_stat_size :: "'fs \<Rightarrow> path \<Rightarrow> string + int"
  fs_unlink :: "'fs \<Rightarrow> path \<Rightarrow> string option \<times> 'fs"
  fs_mkdir :: "'fs \<Rightarrow> path \<Rightarrow> string option \<times> 'fs"
  fs_resolve :: "'fs \<Rightarrow> path \<Rightarrow> string + path"
  fs_glob :: "'fs \<Rightarrow> path \<Rightarrow> path list \<times> string option"
  fs_rglob :: "'fs \<Rightarrow> path \<Rightarrow> path list \<times> string option"
  fs_iterdir :: "'fs \<Rightarrow> path \<Rightarrow> path list \<times> string option"
  image_open :: "'fs \<Rightarrow> path \<Rightarrow> string + image"
  image_open_bytes :: "bytes \<Rightarrow> string + image"
  image_save :: "'fs \<Rightarrow> image \<Rightarrow> path \<Rightarrow> int \<Rightarrow> string option \<times> 'fs"
  secure_filename :: "string \<Rightarrow> string"

section \<open>The conversion engine (\<open>imgtowebp/core.py\<close>)\<close>

definition SUPPORTED_EXTENSIONS :: "string list" where
  "SUPPORTED_EXTENSIONS = [''.jpg'', ''.jpeg'', ''.png'']"

record ConversionResult =
  success :: bool
  message :: string
  input_size :: int
  output_size :: int
  saved_bytes :: int

definition failure :: "string \<Rightarrow> ConversionResult" where
  \<comment> \<open>\<open>ConversionResult(False, msg)\<close>, the sizes at their default 0\<close>
  "failure msg = \<lparr>success = False, message = msg, input_size = 0, output_size = 0, saved_bytes = 0\<rparr>"

datatype input_data = FromPath path | FromBytes bytes

definition encode_and_measure ::
  "'fs env \<Rightarrow> image \<Rightarrow> int \<Rightarrow> path \<Rightarrow> int \<Rightarrow> 'fs \<Rightarrow> (string \<times> 'fs) + (ConversionResult \<times> 'fs)" where
  \<comment> \<open>\<open>convert_image\<close>, lines 58 to 71; \<open>Inl\<close> is an exception leaving the block\<close>
  "encode_and_measure E img isize output_path quality fs =
     (case image_save E fs (ensure_webp_compatible_mode img) output_path quality of
        (Some e, fs') \<Rightarrow> Inl (e, fs')
      | (None, fs') \<Rightarrow>
          (case fs_stat_size E fs' output_path of
             Inl e \<Rightarrow> Inl (e, fs')
           | Inr osize \<Rightarrow>
               Inr (\<lparr>success = True, message = ''Successfully converted'',
                     input_size = isize, output_size = osize,
                     saved_bytes = isize - osize\<rparr>, fs')))"

definition convert_image_try ::
  "'fs env \<Rightarrow> input_data \<Rightarrow> path \<Rightarrow> int \<Rightarrow> 'fs \<Rightarrow> (string \<times> 'fs) + (ConversionResult \<times> 'fs)" where
  \<comment> \<open>the body of the \<open>try\<close> of \<open>convert_image\<close>, lines 51 to 71\<close>
  "convert_image_try E inp output_path quality fs =
     (case inp of
        FromPath p \<Rightarrow>
          (case fs_stat_size E fs p of
             Inl e \<Rightarrow> Inl (e, fs)
           | Inr isize \<Rightarrow>
               (case image_open E fs p of
                  Inl e \<Rightarrow> Inl (e, fs)
                | Inr img \<Rightarrow> encode_and_measure E img isize output_path quality fs))
      | FromBytes data \<Rightarrow>
          (case image_open_bytes E data of
             Inl e \<Rightarrow> Inl (e, fs)
           | Inr img \<Rightarrow> encode_and_measure E img (int (length data)) output_path quality fs))"

definition convert_image ::
  "'fs env \<Rightarrow> input_data \<Rightarrow> path \<Rightarrow> int \<Rightarrow> bool \<Rightarrow> 'fs
     \<Rightarrow> (string \<times> 'fs) + (ConversionResult \<times> 'fs)" where
  \<comment> \<open>\<open>Inl\<close> is an exception that reaches the caller: the test of line 47 stands
      before the \<open>try\<close>\<close>
  "convert_image E inp output_path quality overwrite fs =
     (case fs_exists E fs output_path of
        Inl e \<Rightarrow> Inl (e, fs)
      | Inr ex \<Rightarrow>
          (if ex \<and> \<not> overwrite
           then Inr (failure ''Output file already exists and overwrite is disabled.'', fs)
           else (case convert_image_try E inp output_path quality fs of
                   Inl (e, fs') \<Rightarrow> Inr (failure (''Error during conversion: '' @ e), fs')
                 | Inr r \<Rightarrow> Inr r)))"

section \<open>Batch statistics and the two directory walkers\<close>

record ConversionStats =
  scanned :: int
  eligible :: int
  converted :: int
  skipped_existing :: int
  deleted_originals :: int
  failed :: int
  total_input_bytes :: int
  total_output_bytes :: int
  total_deleted_bytes :: int

definition ConversionStats0 :: ConversionStats where
  \<comment> \<open>\<open>ConversionStats()\<close>\<close>
  "ConversionStats0 =
     \<lparr>scanned = 0, eligible = 0, converted = 0, skipped_existing = 0, deleted_originals = 0,
      failed = 0, total_input_bytes = 0, total_output_bytes = 0, total_deleted_bytes = 0\<rparr>"

definition should_convert :: "path \<Rightarrow> bool" where
  "should_convert p = (py_lower (suffix_of p) \<in> set SUPPORTED_EXTENSIONS)"

definition to_webp_path :: "path \<Rightarrow> path option" where
  "to_webp_path src_path = with_suffix src_path ''.webp''"

record cli_args =
  dir :: string
  quality :: int
  no_recursive :: bool
  overwrite :: bool
  replace :: bool

datatype cli_stop = SystemExit int string | Uncaught string

definition exit_status :: "cli_stop \<Rightarrow> int" where
  \<comment> \<open>the status of the process: that of \<open>SystemExit\<close>, or 1 after a traceback\<close>
  "exit_status s = (case s of SystemExit c m \<Rightarrow> c | Uncaught e \<Rightarrow> 1)"

text \<open>
  A run of a command-line entry point ends in \<open>Inl\<close> when the process stops early
  (\<open>SystemExit\<close> with its status and message, or an exception nothing catches), else in the
  statistics. Lines written by \<open>print\<close> to the standard output are not modelled. A loop
  over a generator takes the paths in order; \<open>iter_images\<close> tests \<open>is_file\<close> on a path
  when the loop asks for it, and the exception that ends a generator ends the loop.
\<close>

subsection \<open>\<open>convert_to_webp.py\<close>\<close>

definition iter_images :: "'fs env \<Rightarrow> 'fs \<Rightarrow> path \<Rightarrow> bool \<Rightarrow> path list \<times> string option" where
  \<comment> \<open>the iterator that \<open>iter_images\<close> filters\<close>
  "iter_images E fs directory recursive =
     (if recursive then fs_rglob E fs directory else fs_glob E fs directory)"

definition delete_behind_existing ::
  "'fs env \<Rightarrow> path \<Rightarrow> path \<Rightarrow> ConversionStats \<times> 'fs \<Rightarrow> ConversionStats \<times> 'fs" where
  \<comment> \<open>\<open>convert_one\<close>, lines 86 to 98\<close>
  "delete_behind_existing E src_path dst_path = (\<lambda>(stats, fs).
     (case fs_stat_size E fs dst_path of
        Inl e \<Rightarrow> (stats\<lparr>failed := failed stats + 1\<rparr>, fs)
      | Inr dst_size \<Rightarrow>
          (if dst_size > 0 then
             (case fs_stat_size E fs src_path of
                Inl e \<Rightarrow> (stats\<lparr>failed := failed stats + 1\<rparr>, fs)
              | Inr src_size \<Rightarrow>
                  (case fs_unlink E fs src_path of
                     (Some e, fs') \<Rightarrow> (stats\<lparr>failed := failed stats + 1\<rparr>, fs')
                   | (None, fs') \<Rightarrow>
                       (stats\<lparr>deleted_originals := deleted_originals stats + 1,
                              total_deleted_bytes := total_deleted_bytes stats + src_size\<rparr>, fs')))
           else (stats, fs))))"

definition convert_and_count ::
  "'fs env \<Rightarrow> path \<Rightarrow> path \<Rightarrow> int \<Rightarrow> bool \<Rightarrow> ConversionStats \<times> 'fs \<Rightarrow> ConversionStats \<times> 'fs" where
  \<comment> \<open>\<open>convert_one\<close>, lines 101 to 124\<close>
  "convert_and_count E src_path dst_path q rep = (\<lambda>(stats, fs).
     (case fs_stat_size E fs src_path of
        Inl e \<Rightarrow> (stats\<lparr>failed := failed stats + 1\<rparr>, fs)
      | Inr src_size \<Rightarrow>
          (case image_open E fs src_path of
             Inl e \<Rightarrow> (stats\<lparr>failed := failed stats + 1\<rparr>, fs)
           | Inr img \<Rightarrow>
               (case image_save E fs (ensure_webp_compatible_mode img) dst_path q of
                  (Some e, fs1) \<Rightarrow> (stats\<lparr>failed := failed stats + 1\<rparr>, fs1)
                | (None, fs1) \<Rightarrow>
                    (case fs_stat_size E fs1 dst_path of
                       Inl e \<Rightarrow> (stats\<lparr>failed := failed stats + 1\<rparr>, fs1)
                     | Inr dst_size \<Rightarrow>
                         (let stats1 = stats\<lparr>total_input_bytes := total_input_bytes stats + src_size,
                                              total_output_bytes := total_output_bytes stats + dst_size,
                                              converted := converted stats + 1\<rparr>
                          in if rep then
                               (case fs_unlink E fs1 src_path of
                                  (Some e, fs2) \<Rightarrow> (stats1\<lparr>failed := failed stats1 + 1\<rparr>, fs2)
                                | (None, fs2) \<Rightarrow>
                                    (stats1\<lparr>deleted_originals := deleted_originals stats1 + 1,
                                            total_deleted_bytes := total_deleted_bytes stats1 + src_size\<rparr>,
                                     fs2))
                             else (stats1, fs1)))))))"

definition convert_one ::
  "'fs env \<Rightarrow> path \<Rightarrow> int \<Rightarrow> bool \<Rightarrow> bool \<Rightarrow> ConversionStats \<times> 'fs
     \<Rightarrow> (string \<times> 'fs) + (ConversionStats \<times> 'fs)" where
  \<comment> \<open>\<open>Inl\<close> is an exception that leaves \<open>convert_one\<close>: the ValueError of
      \<open>with_suffix\<close> or what \<open>dst_path.exists()\<close> raises, both outside a \<open>try\<close>\<close>
  "convert_one E src_path q ovw rep = (\<lambda>(stats0, fs).
     (let stats = stats0\<lparr>scanned := scanned stats0 + 1\<rparr> in
      if \<not> should_convert src_path then Inr (stats, fs)
      else
        let stats = stats\<lparr>eligible := eligible stats + 1\<rparr> in
        (case to_webp_path src_path of
           None \<Rightarrow> Inl (''ValueError'', fs)
         | Some dst_path \<Rightarrow>
             (case fs_exists E fs dst_path of
                Inl e \<Rightarrow> Inl (e, fs)
              | Inr ex \<Rightarrow>
                  (if ex \<and> \<not> ovw then
                     (let stats = stats\<lparr>skipped_existing := skipped_existing stats + 1\<rparr> in
                      if rep then Inr (delete_behind_existing E src_path dst_path (stats, fs))
                      else Inr (stats, fs))
                   else Inr (convert_and_count E src_path dst_path q rep (stats, fs)))))))"

fun convert_all ::
  "'fs env \<Rightarrow> int \<Rightarrow> bool \<Rightarrow> bool \<Rightarrow> path list \<Rightarrow> string option \<Rightarrow> ConversionStats \<times> 'fs
     \<Rightarrow> (string \<times> 'fs) + (ConversionStats \<times> 'fs)" where
  \<comment> \<open>the loop of \<open>convert_to_webp\<close> over \<open>iter_images\<close>: the paths the iterator
      still yields, the exception that ends it, the statistics and the state\<close>
  "convert_all E q ovw rep [] fin (stats, fs) =
     (case fin of None \<Rightarrow> Inr (stats, fs) | Some e \<Rightarrow> Inl (e, fs))"
| "convert_all E q ovw rep (p # ps) fin (stats, fs) =
     (case fs_is_file E fs p of
        Inl e \<Rightarrow> Inl (e, fs)
      | Inr is_f \<Rightarrow>
          (if \<not> is_f then convert_all E q ovw rep ps fin (stats, fs)
           else (case convert_one E p q ovw rep (stats, fs) of
                   Inl x \<Rightarrow> Inl x
                 | Inr st' \<Rightarrow> convert_all E q ovw rep ps fin st')))"

definition convert_to_webp ::
  "'fs env \<Rightarrow> path \<Rightarrow> int \<Rightarrow> bool \<Rightarrow> bool \<Rightarrow> bool \<Rightarrow> 'fs
     \<Rightarrow> (string \<times> 'fs) + (ConversionStats \<times> 'fs)" where
  "convert_to_webp E directory q recursive ovw rep fs =
     (case iter_images E fs directory recursive of
        (ps, fin) \<Rightarrow> convert_all E q ovw rep ps fin (ConversionStats0, fs))"

definition main :: "'fs env \<Rightarrow> cli_args \<Rightarrow> 'fs \<Rightarrow> (cli_stop + ConversionStats) \<times> 'fs" where
  "main E args fs =
     (case fs_resolve E fs (parse_path (dir args)) of
        Inl e \<Rightarrow> (Inl (Uncaught e), fs)
      | Inr directory \<Rightarrow>
          (if quality args < 0 \<or> quality args > 100
           then (Inl (SystemExit 1 ''--quality must be within 0..100''), fs)
           else (case convert_to_webp E directory (quality args) (\<not> no_recursive args)
                        (overwrite args) (replace args) fs of
                   Inl (e, fs') \<Rightarrow> (Inl (Uncaught e), fs')
                 | Inr (stats, fs') \<Rightarrow> (Inr stats, fs'))))"

subsection \<open>\<open>imgtowebp/cli.py\<close>\<close>

definition delete_original ::
  "'fs env \<Rightarrow> path \<Rightarrow> ConversionStats \<times> 'fs \<Rightarrow> ConversionStats \<times> 'fs" where
  \<comment> \<open>\<open>run_cli\<close>, lines 105 to 112 and again 118 to 125: the handler only prints\<close>
  "delete_original E src_path = (\<lambda>(stats, fs).
     (case fs_stat_size E fs src_path of
        Inl e \<Rightarrow> (stats, fs)
      | Inr src_size \<Rightarrow>
          (case fs_unlink E fs src_path of
             (Some e, fs') \<Rightarrow> (stats, fs')
           | (None, fs') \<Rightarrow>
               (stats\<lparr>deleted_originals := deleted_originals stats + 1,
                      total_deleted_bytes := total_deleted_bytes stats + src_size\<rparr>, fs'))))"

definition run_cli_step ::
  "'fs env \<Rightarrow> cli_args \<Rightarrow> path \<Rightarrow> ConversionStats \<times> 'fs
     \<Rightarrow> (string \<times> 'fs) + (ConversionStats \<times> 'fs)" where
  \<comment> \<open>the body of the loop of \<open>run_cli\<close>, lines 88 to 128\<close>
  "run_cli_step E args src_path = (\<lambda>(stats0, fs).
     (let stats = stats0\<lparr>eligible := eligible stats0 + 1\<rparr> in
      case with_suffix src_path ''.webp'' of
        None \<Rightarrow> Inl (''ValueError'', fs)
      | Some dst_path \<Rightarrow>
          (case convert_image E (FromPath src_path) dst_path (quality args) (overwrite args) fs of
             Inl x \<Rightarrow> Inl x
           | Inr (res, fs1) \<Rightarrow>
               (if success res then
                  (let stats = stats\<lparr>converted := converted stats + 1,
                                      total_input_bytes := total_input_bytes stats + input_size res,
                                      total_output_bytes := total_output_bytes stats + output_size res\<rparr>
                   in if replace args then Inr (delete_original E src_path (stats, fs1))
                      else Inr (stats, fs1))
                else if str_in ''exists'' (message res) then
                  (let stats = stats\<lparr>skipped_existing := skipped_existing stats + 1\<rparr>
                   in if replace args then Inr (delete_original E src_path (stats, fs1))
                      else Inr (stats, fs1))
                else Inr (stats\<lparr>failed := failed stats + 1\<rparr>, fs1)))))"

fun run_cli_loop ::
  "'fs env \<Rightarrow> cli_args \<Rightarrow> path list \<Rightarrow> string option \<Rightarrow> ConversionStats \<times> 'fs
     \<Rightarrow> (string \<times> 'fs) + (ConversionStats \<times> 'fs)" where
  \<comment> \<open>the loop of \<open>run_cli\<close> over \<open>iter_images\<close> of \<open>cli.py\<close>, which yields the
      files with a supported suffix\<close>
  "run_cli_loop E args [] fin (stats, fs) =
     (case fin of None \<Rightarrow> Inr (stats, fs) | Some e \<Rightarrow> Inl (e, fs))"
| "run_cli_loop E args (p # ps) fin (stats, fs) =
     (case fs_is_file E fs p of
        Inl e \<Rightarrow> Inl (e, fs)
      | Inr is_f \<Rightarrow>
          (if \<not> (is_f \<and> py_lower (suffix_of p) \<in> set SUPPORTED_EXTENSIONS)
           then run_cli_loop E args ps fin (stats, fs)
           else (case run_cli_step E args p (stats, fs) of
                   Inl x \<Rightarrow> Inl x
                 | Inr st' \<Rightarrow> run_cli_loop E args ps fin st')))"

fun count_files :: "'fs env \<Rightarrow> 'fs \<Rightarrow> path list \<Rightarrow> string option \<Rightarrow> string + int" where
  \<comment> \<open>\<open>len([f for f in directory.iterdir() if f.is_file()])\<close>\<close>
  "count_files E fs [] fin = (case fin of None \<Rightarrow> Inr 0 | Some e \<Rightarrow> Inl e)"
| "count_files E fs (p # ps) fin =
     (case fs_is_file E fs p of
        Inl e \<Rightarrow> Inl e
      | Inr is_f \<Rightarrow>
          (case count_files E fs ps fin of
             Inl e \<Rightarrow> Inl e
           | Inr n \<Rightarrow> Inr (if is_f then n + 1 else n)))"

definition run_cli :: "'fs env \<Rightarrow> cli_args \<Rightarrow> 'fs \<Rightarrow> (cli_stop + ConversionStats) \<times> 'fs" where
  "run_cli E args fs =
     (case fs_resolve E fs (parse_path (dir args)) of
        Inl e \<Rightarrow> (Inl (Uncaught e), fs)
      | Inr directory \<Rightarrow>
          (if \<not> (0 \<le> quality args \<and> quality args \<le> 100)
           then (Inl (SystemExit 1 ''Error: --quality must be between 0 and 100''), fs)
           else
             (case fs_iterdir E fs directory of
                (entries, fin0) \<Rightarrow>
                  (case count_files E fs entries fin0 of
                     Inl e \<Rightarrow> (Inl (Uncaught e), fs)
                   | Inr n \<Rightarrow>
                       (case iter_images E fs directory (\<not> no_recursive args) of
                          (ps, fin) \<Rightarrow>
                            (case run_cli_loop E args ps fin (ConversionStats0\<lparr>scanned := n\<rparr>, fs) of
                               Inl (e, fs') \<Rightarrow> (Inl (Uncaught e), fs')
                             | Inr (stats', fs') \<Rightarrow> (Inr stats', fs')))))))"

section \<open>The upload handlers\<close>

record upload_form =
  quality_field :: "string option"
  overwrite_field :: "string option"
  subdir_field :: "string option"

record upload_file =
  filename :: "string option"
  content :: bytes

record UploadItemResult =
  original_name :: string
  status :: string
  item_message :: string
  output_relpath :: "string option"
  input_bytes :: int
  output_bytes :: int

definition item :: "string \<Rightarrow> string \<Rightarrow> string \<Rightarrow> UploadItemResult" where
  \<comment> \<open>\<open>UploadItemResult(name, status, message)\<close>, the other fields at their defaults\<close>
  "item n st msg =
     \<lparr>original_name = n, status = st, item_message = msg, output_relpath = None,
      input_bytes = 0, output_bytes = 0\<rparr>"

text \<open>
  The local variables of \<open>upload\<close> that the loop updates. The summary keeps the counters;
  its strings made by \<open>format_bytes\<close> and the percentage are floating-point formatting and
  are left out, as is the rendering of the page.
\<close>

record upload_acc =
  results :: "UploadItemResult list"
  up_total_in :: int
  up_total_out :: int
  up_converted :: int
  up_skipped :: int
  up_failed :: int

definition upload_acc0 :: upload_acc where
  "upload_acc0 = \<lparr>results = [], up_total_in = 0, up_total_out = 0, up_converted = 0,
                  up_skipped = 0, up_failed = 0\<rparr>"

record upload_summary =
  files_received :: int
  sum_converted :: int
  sum_skipped :: int
  sum_failed :: int
  sum_subdir :: string
  sum_overwrite :: bool
  sum_quality :: int

definition upload_target_dir :: "'fs env \<Rightarrow> 'fs \<Rightarrow> path \<Rightarrow> path \<Rightarrow> string + path" where
  \<comment> \<open>\<open>webp_uploader/app.py\<close>, lines 99 to 101; \<open>imgtowebp/web/app.py\<close>, lines 92 to 95;
      \<open>output_dir.resolve()\<close> gives the same answer each time it is called here\<close>
  "upload_target_dir E fs output_dir subdir =
     (case fs_resolve E fs (path_div output_dir subdir) of
        Inl e \<Rightarrow> Inl e
      | Inr target_dir \<Rightarrow>
          (case fs_resolve E fs output_dir of
             Inl e \<Rightarrow> Inl e
           | Inr root \<Rightarrow>
               Inr (if root \<notin> set (parents target_dir) \<and> target_dir \<noteq> root
                    then root else target_dir)))"

definition not_in_subpath :: "path \<Rightarrow> path \<Rightarrow> string" where
  \<comment> \<open>the text of the ValueError of \<open>relative_to\<close>\<close>
  "not_in_subpath p base =
     [CHR 0x27] @ str_of_path p @ [CHR 0x27] @ '' is not in the subpath of '' @
     [CHR 0x27] @ str_of_path base @ [CHR 0x27]"

subsection \<open>\<open>imgtowebp/web/app.py\<close>\<close>

definition upload_one ::
  "'fs env \<Rightarrow> path \<Rightarrow> path \<Rightarrow> int \<Rightarrow> bool \<Rightarrow> upload_file \<Rightarrow> upload_acc \<times> 'fs
     \<Rightarrow> (string \<times> 'fs) + (upload_acc \<times> 'fs)" where
  \<comment> \<open>the body of the loop of \<open>upload\<close>, lines 99 to 150\<close>
  "upload_one E output_dir target_dir q ovw f = (\<lambda>(acc, fs).
     (case filename f of
        None \<Rightarrow> Inr (acc, fs)
      | Some original \<Rightarrow>
          (if original = [] then Inr (acc, fs)
           else
             let safe_name = secure_filename E original;
                 ext = py_lower (suffix_of (parse_path safe_name))
             in
             if ext \<notin> set SUPPORTED_EXTENSIONS then
               Inr (acc\<lparr>up_skipped := up_skipped acc + 1,
                        results := results acc @ [item original ''skipped'' ''Unsupported file type.'']\<rparr>,
                    fs)
             else
               let out_path = path_div target_dir (parse_path (stem (parse_path safe_name) @ ''.webp''));
                   data = content f
               in
               if data = [] then
                 Inr (acc\<lparr>up_skipped := up_skipped acc + 1,
                          results := results acc @ [item original ''skipped'' ''Empty file.'']\<rparr>,
                      fs)
               else
                 (case convert_image E (FromBytes data) out_path q ovw fs of
                    Inl x \<Rightarrow> Inl x
                  | Inr (res, fs1) \<Rightarrow>
                      (if success res then
                         (case relative_to out_path output_dir of
                            None \<Rightarrow> Inl (not_in_subpath out_path output_dir, fs1)
                          | Some rel \<Rightarrow>
                              Inr (acc\<lparr>up_total_in := up_total_in acc + input_size res,
                                       up_total_out := up_total_out acc + output_size res,
                                       up_converted := up_converted acc + 1,
                                       results := results acc @
                                         [\<lparr>original_name = original, status = ''converted'',
                                           item_message = ''Saved.'',
                                           output_relpath = Some (str_of_path rel),
                                           input_bytes = input_size res,
                                           output_bytes = output_size res\<rparr>]\<rparr>,
                                   fs1))
                       else if str_in ''exists'' (message res) then
                         (case relative_to out_path output_dir of
                            None \<Rightarrow> Inl (not_in_subpath out_path output_dir, fs1)
                          | Some rel \<Rightarrow>
                              Inr (acc\<lparr>up_skipped := up_skipped acc + 1,
                                       results := results acc @
                                         [(item original ''skipped'' (message res))
                                            \<lparr>output_relpath := Some (str_of_path rel)\<rparr>]\<rparr>,
                                   fs1))
                       else
                         Inr (acc\<lparr>up_failed := up_failed acc + 1,
                                  results := results acc @ [item original ''failed'' (message res)]\<rparr>,
                              fs1))))))"

fun upload_loop ::
  "'fs env \<Rightarrow> path \<Rightarrow> path \<Rightarrow> int \<Rightarrow> bool \<Rightarrow> upload_file list \<Rightarrow> upload_acc \<times> 'fs
     \<Rightarrow> (string \<times> 'fs) + (upload_acc \<times> 'fs)" where
  "upload_loop E output_dir target_dir q ovw [] st = Inr st"
| "upload_loop E output_dir target_dir q ovw (f # fs) st =
     (case upload_one E output_dir target_dir q ovw f st of
        Inl x \<Rightarrow> Inl x
      | Inr st' \<Rightarrow> upload_loop E output_dir target_dir q ovw fs st')"

definition summarize :: "upload_file list \<Rightarrow> upload_acc \<Rightarrow> path \<Rightarrow> bool \<Rightarrow> int \<Rightarrow> upload_summary" where
  "summarize files acc subdir ovw q =
     \<lparr>files_received = int (length files), sum_converted = up_converted acc,
      sum_skipped = up_skipped acc, sum_failed = up_failed acc,
      sum_subdir = str_of_path subdir, sum_overwrite = ovw, sum_quality = q\<rparr>"

definition upload ::
  "'fs env \<Rightarrow> path \<Rightarrow> upload_form \<Rightarrow> upload_file list \<Rightarrow> 'fs
     \<Rightarrow> (string \<times> 'fs) + ((UploadItemResult list \<times> upload_summary) \<times> 'fs)" where
  \<comment> \<open>\<open>Inl\<close> is an exception that leaves the handler\<close>
  "upload E output_dir form files fs =
     (let q = upload_quality (quality_field form);
          ovw = (overwrite_field form = Some ''on'');
          subdir = safe_subdir (case subdir_field form of None \<Rightarrow> [] | Some s \<Rightarrow> s)
      in case upload_target_dir E fs output_dir subdir of
           Inl e \<Rightarrow> Inl (e, fs)
         | Inr target_dir \<Rightarrow>
             (case fs_mkdir E fs target_dir of
                (Some e, fs1) \<Rightarrow> Inl (e, fs1)
              | (None, fs1) \<Rightarrow>
                  (case upload_loop E output_dir target_dir q ovw files (upload_acc0, fs1) of
                     Inl x \<Rightarrow> Inl x
                   | Inr (acc, fs2) \<Rightarrow>
                       Inr ((results acc, summarize files acc subdir ovw q), fs2))))"

subsection \<open>\<open>webp_uploader/app.py\<close>\<close>

definition item_failed :: "string \<Rightarrow> string \<Rightarrow> upload_acc \<Rightarrow> upload_acc" where
  \<comment> \<open>the handler of the \<open>try\<close>, lines 170 to 178\<close>
  "item_failed original e acc =
     acc\<lparr>up_failed := up_failed acc + 1, results := results acc @ [item original ''failed'' e]\<rparr>"

definition uploader_one ::
  "'fs env \<Rightarrow> path \<Rightarrow> path \<Rightarrow> int \<Rightarrow> bool \<Rightarrow> upload_file \<Rightarrow> upload_acc \<times> 'fs
     \<Rightarrow> (string \<times> 'fs) + (upload_acc \<times> 'fs)" where
  \<comment> \<open>the body of the loop of \<open>upload\<close>, lines 105 to 178; \<open>out_path.exists()\<close>
      stands before the \<open>try\<close>\<close>
  "uploader_one E output_dir target_dir q ovw f = (\<lambda>(acc, fs).
     (case filename f of
        None \<Rightarrow> Inr (acc, fs)
      | Some original \<Rightarrow>
          (if original = [] then Inr (acc, fs)
           else
             let safe_name = secure_filename E original;
                 ext = py_lower (suffix_of (parse_path safe_name))
             in
             if ext \<notin> set SUPPORTED_EXTENSIONS then
               Inr (acc\<lparr>up_skipped := up_skipped acc + 1,
                        results := results acc @
                          [item original ''skipped'' ''Unsupported file type (only .jpg/.jpeg/.png).'']\<rparr>,
                    fs)
             else
               let out_path = path_div target_dir (parse_path (stem (parse_path safe_name) @ ''.webp''))
               in
               case fs_exists E fs out_path of
                 Inl e \<Rightarrow> Inl (e, fs)
               | Inr ex \<Rightarrow>
               if ex \<and> \<not> ovw then
                 (case relative_to out_path output_dir of
                    None \<Rightarrow> Inl (not_in_subpath out_path output_dir, fs)
                  | Some rel \<Rightarrow>
                      Inr (acc\<lparr>up_skipped := up_skipped acc + 1,
                               results := results acc @
                                 [(item original ''skipped'' ''Output exists and overwrite is disabled.'')
                                    \<lparr>output_relpath := Some (str_of_path rel)\<rparr>]\<rparr>,
                           fs))
               else
                 let data = content f in
                 if data = [] then
                   Inr (acc\<lparr>up_skipped := up_skipped acc + 1,
                            results := results acc @ [item original ''skipped'' ''Empty file.'']\<rparr>,
                        fs)
                 else
                   let acc1 = acc\<lparr>up_total_in := up_total_in acc + int (length data)\<rparr> in
                   (case image_open_bytes E data of
                      Inl e \<Rightarrow> Inr (item_failed original e acc1, fs)
                    | Inr img \<Rightarrow>
                        (case image_save E fs (ensure_webp_compatible_mode img) out_path q of
                           (Some e, fs1) \<Rightarrow> Inr (item_failed original e acc1, fs1)
                         | (None, fs1) \<Rightarrow>
                             (case fs_stat_size E fs1 out_path of
                                Inl e \<Rightarrow> Inr (item_failed original e acc1, fs1)
                              | Inr out_size \<Rightarrow>
                                  (let acc2 = acc1\<lparr>up_total_out := up_total_out acc1 + out_size,
                                                    up_converted := up_converted acc1 + 1\<rparr>
                                   in case relative_to out_path output_dir of
                                        None \<Rightarrow>
                                          Inr (item_failed original
                                                 (not_in_subpath out_path output_dir) acc2, fs1)
                                      | Some rel \<Rightarrow>
                                          Inr (acc2\<lparr>results := results acc2 @
                                                  [\<lparr>original_name = original, status = ''converted'',
                                                    item_message = ''Saved.'',
                                                    output_relpath = Some (str_of_path rel),
                                                    input_bytes = int (length data),
                                                    output_bytes = out_size\<rparr>]\<rparr>,
                                               fs1))))))))"

fun uploader_loop ::
  "'fs env \<Rightarrow> path \<Rightarrow> path \<Rightarrow> int \<Rightarrow> bool \<Rightarrow> upload_file list \<Rightarrow> upload_acc \<times> 'fs
     \<Rightarrow> (string \<times> 'fs) + (upload_acc \<times> 'fs)" where
  "uploader_loop E output_dir target_dir q ovw [] st = Inr st"
| "uploader_loop E output_dir target_dir q ovw (f # fs) st =
     (case uploader_one E output_dir target_dir q ovw f st of
        Inl x \<Rightarrow> Inl x
      | Inr st' \<Rightarrow> uploader_loop E output_dir target_dir q ovw fs st')"

definition uploader_upload ::
  "'fs env \<Rightarrow> path \<Rightarrow> upload_form \<Rightarrow> upload_file list \<Rightarrow> 'fs
     \<Rightarrow> (string \<times> 'fs) + ((UploadItemResult list \<times> upload_summary) \<times> 'fs)" where
  \<comment> \<open>\<open>upload\<close> of \<open>webp_uploader/app.py\<close>\<close>
  "uploader_upload E output_dir form files fs =
     (let q = uploader_quality (quality_field form);
          ovw = (overwrite_field form = Some ''on'');
          subdir = safe_subdir (case subdir_field form of None \<Rightarrow> [] | Some s \<Rightarrow> s)
      in case upload_target_dir E fs output_dir subdir of
           Inl e \<Rightarrow> Inl (e, fs)
         | Inr target_dir \<Rightarrow>
             (case fs_mkdir E fs target_dir of
                (Some e, fs1) \<Rightarrow> Inl (e, fs1)
              | (None, fs1) \<Rightarrow>
                  (case uploader_loop E output_dir target_dir q ovw files (upload_acc0, fs1) of
                     Inl x \<Rightarrow> Inl x
                   | Inr (acc, fs2) \<Rightarrow>
                       Inr ((results acc, summarize files acc subdir ovw q), fs2))))"

section \<open>An in-memory environment\<close>

text \<open>
  A small environment on which the model runs on concrete inputs: a file system without
  symbolic links, as a list of entries, where a file can be protected against deletion and
  a directory can refuse the search of its entries; and a codec that reads the mode of an
  image from the first byte of its data.
\<close>

datatype sim_node = SimFile bytes bool | SimDir bool

type_synonym sim_fs = "(path \<times> sim_node) list"

definition sim_denied :: "sim_fs \<Rightarrow> path \<Rightarrow> bool" where
  \<comment> \<open>a directory above the path refuses to be searched\<close>
  "sim_denied fs p = list_ex (\<lambda>d. map_of fs d = Some (SimDir False)) (parents p)"

definition sim_exists :: "sim_fs \<Rightarrow> path \<Rightarrow> string + bool" where
  "sim_exists fs p =
     (if sim_denied fs p then Inl ''Permission denied'' else Inr (map_of fs p \<noteq> None))"

definition sim_is_file :: "sim_fs \<Rightarrow> path \<Rightarrow> string + bool" where
  "sim_is_file fs p =
     (if sim_denied fs p then Inl ''Permission denied''
      else Inr (case map_of fs p of Some (SimFile b d) \<Rightarrow> True | _ \<Rightarrow> False))"

definition sim_stat_size :: "sim_fs \<Rightarrow> path \<Rightarrow> string + int" where
  "sim_stat_size fs p =
     (if sim_denied fs p then Inl ''Permission denied''
      else (case map_of fs p of
              None \<Rightarrow> Inl ''No such file or directory''
            | Some (SimFile b d) \<Rightarrow> Inr (int (length b))
            | Some (SimDir s) \<Rightarrow> Inr 4096))"

definition sim_remove :: "sim_fs \<Rightarrow> path \<Rightarrow> sim_fs" where
  "sim_remove fs p = filter (\<lambda>kv. fst kv \<noteq> p) fs"

definition sim_unlink :: "sim_fs \<Rightarrow> path \<Rightarrow> string option \<times> sim_fs" where
  "sim_unlink fs p =
     (case map_of fs p of
        None \<Rightarrow> (Some ''No such file or directory'', fs)
      | Some (SimDir s) \<Rightarrow> (Some ''Is a directory'', fs)
      | Some (SimFile b d) \<Rightarrow>
          (if d then (None, sim_remove fs p) else (Some ''Permission denied'', fs)))"

definition sim_mkdir :: "sim_fs \<Rightarrow> path \<Rightarrow> string option \<times> sim_fs" where
  "sim_mkdir fs p =
     (case map_of fs p of
        None \<Rightarrow> (None, fs @ [(p, SimDir True)])
      | Some (SimDir s) \<Rightarrow> (None, fs)
      | Some (SimFile b d) \<Rightarrow> (Some ''File exists'', fs))"

fun collapse :: "string list \<Rightarrow> string list \<Rightarrow> string list" where
  "collapse acc [] = rev acc"
| "collapse acc (x # xs) = (if x = ''..'' then collapse (tl acc) xs else collapse (x # acc) xs)"

definition sim_resolve :: "sim_fs \<Rightarrow> path \<Rightarrow> string + path" where
  "sim_resolve fs p = Inr (Path (anchor p) (collapse [] (tail p)))"

definition sim_glob :: "sim_fs \<Rightarrow> path \<Rightarrow> path list \<times> string option" where
  "sim_glob fs d = (filter (\<lambda>p. take 1 (parents p) = [d]) (map fst fs), None)"

definition sim_rglob :: "sim_fs \<Rightarrow> path \<Rightarrow> path list \<times> string option" where
  "sim_rglob fs d = (filter (\<lambda>p. d \<in> set (parents p)) (map fst fs), None)"

definition sim_iterdir :: "sim_fs \<Rightarrow> path \<Rightarrow> path list \<times> string option" where
  "sim_iterdir fs d =
     (case map_of fs d of
        Some (SimDir s) \<Rightarrow> sim_glob fs d
      | _ \<Rightarrow> ([], Some ''No such file or directory''))"

definition sim_decode :: "bytes \<Rightarrow> string + image" where
  "sim_decode b =
     (if take 1 b = [1] then Inr \<lparr>mode = ''RGB'', bands = [''R'', ''G'', ''B'']\<rparr>
      else if take 1 b = [2] then Inr \<lparr>mode = ''LA'', bands = [''L'', ''A'']\<rparr>
      else Inl ''cannot identify image file'')"

definition sim_open :: "sim_fs \<Rightarrow> path \<Rightarrow> string + image" where
  "sim_open fs p =
     (case map_of fs p of
        Some (SimFile b d) \<Rightarrow> sim_decode b
      | _ \<Rightarrow> Inl ''No such file or directory'')"

definition sim_save :: "sim_fs \<Rightarrow> image \<Rightarrow> path \<Rightarrow> int \<Rightarrow> string option \<times> sim_fs" where
  "sim_save fs img p q = (None, (p, SimFile [87, 69, 66, 80] True) # sim_remove fs p)"

definition sim :: "sim_fs env" where
  "sim = \<lparr>fs_exists = sim_exists, fs_is_file = sim_is_file, fs_stat_size = sim_stat_size,
          fs_unlink = sim_unlink, fs_mkdir = sim_mkdir, fs_resolve = sim_resolve,
          fs_glob = sim_glob, fs_rglob = sim_rglob, fs_iterdir = sim_iterdir,
          image_open = sim_open, image_open_bytes = sim_decode, image_save = sim_save,
          secure_filename = filter (\<lambda>c. c \<noteq> CHR ''/'')\<rparr>"

subsection \<open>Concrete inputs\<close>

definition pics :: path where
  "pics = Path ''/'' [''pics'']"

definition a_jpg :: path where
  "a_jpg = Path ''/'' [''pics'', ''a.jpg'']"

definition a_webp :: path where
  "a_webp = Path ''/'' [''pics'', ''a.webp'']"

definition fs_locked :: sim_fs where
  \<comment> \<open>\<open>a.jpg\<close> cannot be deleted, \<open>a.webp\<close> exists with four bytes\<close>
  "fs_locked = [(pics, SimDir True), (a_jpg, SimFile [1, 0, 0] False),
                (a_webp, SimFile [87, 69, 66, 80] True)]"

definition fs_empty_webp :: sim_fs where
  \<comment> \<open>\<open>a.webp\<close> exists and is empty\<close>
  "fs_empty_webp = [(pics, SimDir True), (a_jpg, SimFile [1, 0, 0] True), (a_webp, SimFile [] True)]"

definition args_replace :: cli_args where
  "args_replace = \<lparr>dir = ''/pics'', quality = 80, no_recursive = False, overwrite = False, replace = True\<rparr>"

definition out_root :: path where
  "out_root = Path ''/'' [''srv'', ''out'']"

definition new_webp :: path where
  "new_webp = Path ''/'' [''pics'', ''new.webp'']"

definition missing_jpg :: path where
  "missing_jpg = Path ''/'' [''pics'', ''missing.jpg'']"

definition fs_corrupt :: sim_fs where
  \<comment> \<open>\<open>a.jpg\<close> does not hold an image\<close>
  "fs_corrupt = [(pics, SimDir True), (a_jpg, SimFile [9, 9] True)]"

definition fs_nested :: sim_fs where
  \<comment> \<open>the only image lies in a subdirectory\<close>
  "fs_nested = [(pics, SimDir True), (Path ''/'' [''pics'', ''sub''], SimDir True),
                (Path ''/'' [''pics'', ''sub'', ''b.png''], SimFile [1, 0] True)]"

definition vault_webp :: path where
  "vault_webp = Path ''/'' [''vault'', ''out.webp'']"

definition fs_vault :: sim_fs where
  \<comment> \<open>the directory \<open>/vault\<close> refuses the search of its entries\<close>
  "fs_vault = [(Path ''/'' [''vault''], SimDir False)]"

definition nameless :: upload_file where
  "nameless = \<lparr>filename = Some [], content = [1, 0]\<rparr>"

definition form0 :: upload_form where
  "form0 = \<lparr>quality_field = Some ''80'', overwrite_field = None, subdir_field = Some []\<rparr>"



section \<open>Predicates used in the proofs\<close>

definition clean_part :: "string \<Rightarrow> bool" where
  \<comment> \<open>a path component: not empty, no separator\<close>
  "clean_part b = (b \<noteq> [] \<and> CHR ''/'' \<notin> set b)"


section \<open>Paths: parsing and joining\<close>

lemma split_sep_nonempty: "split_sep c s \<noteq> []"
  by (induction s) (auto split: list.splits)

lemma split_sep_no_sep: "w \<in> set (split_sep c s) \<Longrightarrow> c \<notin> set w"
  by (induction s arbitrary: w) (auto split: list.splits if_splits)

lemma split_sep_single: "c \<notin> set w \<Longrightarrow> split_sep c w = [w]"
  by (induction w) (auto split: list.splits)

lemma split_sep_append: "split_sep c (a @ c # b) = split_sep c a @ split_sep c b"
  by (induction a) (auto split: list.splits simp: split_sep_nonempty)

lemma clean_part_ends: "clean_part b \<Longrightarrow> last b \<noteq> CHR ''/'' \<and> hd b \<noteq> CHR ''/''"
  unfolding clean_part_def by (metis last_in_set hd_in_set)

lemma posix_join_step_clean:
  assumes "clean_part b" "p \<noteq> []" "last p \<noteq> CHR ''/''"
  shows "posix_join_step p b = p @ ''/'' @ b"
  using assms by (cases b) (auto simp: posix_join_step_def clean_part_def)

lemma foldl_join_clean:
  assumes "\<forall>b\<in>set bs. clean_part b" "p \<noteq> []" "last p \<noteq> CHR ''/''"
  shows "foldl posix_join_step p bs \<noteq> [] \<and>
         hd (foldl posix_join_step p bs) = hd p \<and>
         split_sep CHR ''/'' (foldl posix_join_step p bs) = split_sep CHR ''/'' p @ bs"
  using assms
proof (induction bs arbitrary: p)
  case Nil
  then show ?case by simp
next
  case (Cons b bs)
  have cb: "clean_part b" using Cons.prems by simp
  have step: "posix_join_step p b = p @ ''/'' @ b"
    using posix_join_step_clean[OF cb Cons.prems(2) Cons.prems(3)] .
  have ne: "p @ ''/'' @ b \<noteq> []" using Cons.prems by simp
  have lst: "last (p @ ''/'' @ b) \<noteq> CHR ''/''"
    using cb clean_part_ends[of b] by (simp add: clean_part_def)
  have rest: "\<forall>x\<in>set bs. clean_part x" using Cons.prems by simp
  from Cons.IH[OF rest ne lst]
  have ih: "foldl posix_join_step (p @ ''/'' @ b) bs \<noteq> []"
    "hd (foldl posix_join_step (p @ ''/'' @ b) bs) = hd (p @ ''/'' @ b)"
    "split_sep CHR ''/'' (foldl posix_join_step (p @ ''/'' @ b) bs) =
       split_sep CHR ''/'' (p @ ''/'' @ b) @ bs"
    by simp_all
  have sp: "split_sep CHR ''/'' (p @ ''/'' @ b) = split_sep CHR ''/'' p @ [b]"
    using cb split_sep_append[of "CHR ''/''" p b] by (simp add: split_sep_single clean_part_def)
  show ?case using ih sp Cons.prems(2) by (simp add: step)
qed

lemma Path_of_clean:
  assumes "ps \<noteq> []" "\<forall>b\<in>set ps. clean_part b \<and> b \<noteq> ''.''"
  shows "Path_of ps = Path [] ps"
proof (cases ps)
  case Nil
  then show ?thesis using assms by simp
next
  case (Cons a bs)
  have ca: "clean_part a" and cbs: "\<forall>b\<in>set bs. clean_part b" using assms Cons by auto
  have a1: "a \<noteq> []" and a2: "last a \<noteq> CHR ''/''" and a3: "hd a \<noteq> CHR ''/''"
    using ca clean_part_ends[of a] by (simp_all add: clean_part_def)
  let ?r = "foldl posix_join_step a bs"
  from foldl_join_clean[OF cbs a1 a2]
  have r1: "?r \<noteq> []" and r2: "hd ?r = hd a" and r3: "split_sep CHR ''/'' ?r = split_sep CHR ''/'' a @ bs"
    by simp_all
  have sr: "splitroot ?r = ([], ?r)"
    using r1 r2 a3 by (cases ?r) (auto simp: splitroot_def)
  have sa: "split_sep CHR ''/'' a = [a]" using ca by (simp add: split_sep_single clean_part_def)
  have flt: "filter (\<lambda>x. x \<noteq> [] \<and> x \<noteq> ''.'') (a # bs) = a # bs"
    using assms Cons by (auto simp: clean_part_def filter_id_conv)
  show ?thesis
    using sr r3 sa flt by (simp add: Path_of_def Cons posix_join_def parse_path_def)
qed

lemma parse_path_tail_clean:
  "b \<in> set (tail (parse_path s)) \<Longrightarrow> clean_part b \<and> b \<noteq> ''.''"
  by (auto simp: parse_path_def clean_part_def split: prod.splits dest: split_sep_no_sep)

lemma parse_path_dot: "parse_path ''.'' = Path [] []"
  by (simp add: parse_path_def splitroot_def)

lemma parents_prefix:
  assumes "r \<in> set (parents t)"
  shows "anchor r = anchor t \<and> prefix (tail r) (tail t)"
proof -
  from assms obtain k where "r = Path (anchor t) (take k (tail t))"
    by (auto simp: parents_def)
  then show ?thesis by (simp add: take_is_prefix)
qed

lemma parent_of_child: "Path a xs \<in> set (parents (Path a (xs @ [x])))"
proof -
  have "length xs \<in> set (rev [0..<length (xs @ [x])])" by simp
  then have "Path a (take (length xs) (xs @ [x])) \<in> set (parents (Path a (xs @ [x])))"
    unfolding parents_def by (metis (no_types, lifting) image_eqI list.set_map path.sel(1) path.sel(2))
  then show ?thesis by simp
qed

section \<open>Subdirectory sanitation\<close>

lemma safe_subdir_eq:
  "safe_subdir s =
     (if py_strip s = [] \<or> is_absolute (parse_path (py_strip s)) then Path [] []
      else Path [] (filter (\<lambda>x. x \<noteq> ''..'') (tail (parse_path (py_strip s)))))"
proof -
  let ?cand = "parse_path (py_strip s)"
  let ?cl = "filter (\<lambda>part. part \<notin> set ['''', ''.'', ''..'']) (parts ?cand)"
  have cl: "\<not> is_absolute ?cand \<Longrightarrow> ?cl = filter (\<lambda>x. x \<noteq> ''..'') (tail ?cand)"
    by (auto simp: parts_def is_absolute_def clean_part_def intro!: filter_cong dest!: parse_path_tail_clean)
  have pc: "\<not> is_absolute ?cand \<Longrightarrow> ?cl \<noteq> [] \<Longrightarrow> Path_of ?cl = Path [] ?cl"
    by (rule Path_of_clean) (auto simp: parts_def is_absolute_def dest!: parse_path_tail_clean)
  show ?thesis
    using cl pc by (auto simp: safe_subdir_def Let_def parse_path_dot)
qed

lemma safe_subdir_etc: "safe_subdir ''../../etc'' = Path [] [''etc'']"
  by code_simp

text \<open>
  Claim C10. For every input string, \<open>safe_subdir\<close> returns a relative path none of
  whose parts is \<open>.\<close> or \<open>..\<close>; when no part of the input is left after cleaning, it
  returns \<open>Path(".")\<close>, whose string is \<open>.\<close>.
\<close>

theorem safe_subdir_clean_relative:
  "\<not> is_absolute (safe_subdir s) \<and>
   ''.'' \<notin> set (parts (safe_subdir s)) \<and>
   ''..'' \<notin> set (parts (safe_subdir s)) \<and>
   (filter (\<lambda>part. part \<notin> set ['''', ''.'', ''..'']) (parts (parse_path (py_strip s))) = []
      \<longrightarrow> safe_subdir s = parse_path ''.'' \<and> str_of_path (safe_subdir s) = ''.'')"
proof -
  have a: "\<not> is_absolute (safe_subdir s)"
    by (simp add: safe_subdir_eq is_absolute_def)
  have b: "''.'' \<notin> set (parts (safe_subdir s))"
    by (auto simp: safe_subdir_eq parts_def dest!: parse_path_tail_clean)
  have c: "''..'' \<notin> set (parts (safe_subdir s))"
    by (auto simp: safe_subdir_eq parts_def)
  have d: "filter (\<lambda>part. part \<notin> set ['''', ''.'', ''..'']) (parts (parse_path (py_strip s))) = []
      \<longrightarrow> safe_subdir s = parse_path ''.'' \<and> str_of_path (safe_subdir s) = ''.''"
    by (auto simp: safe_subdir_def Let_def parse_path_dot str_of_path_def)
  show ?thesis using a b c d by blast
qed

text \<open>
  Claim C10 at the input \<open>.././..\<close>, made of separators and dots only: nothing is left
  after cleaning and the result is \<open>Path(".")\<close>.
\<close>

theorem safe_subdir_clean_relative_witness:
  "filter (\<lambda>part. part \<notin> set ['''', ''.'', ''..'']) (parts (parse_path (py_strip ''.././..''))) = [] \<and>
   safe_subdir ''.././..'' = parse_path ''.'' \<and>
   str_of_path (safe_subdir ''.././..'') = ''.'' \<and>
   \<not> is_absolute (safe_subdir ''.././..'')"
proof -
  have h: "filter (\<lambda>part. part \<notin> set ['''', ''.'', ''..'']) (parts (parse_path (py_strip ''.././..''))) = []"
    by code_simp
  show ?thesis using h safe_subdir_clean_relative [of "''.././..''"] by blast
qed

text \<open>
  Claim C2, as amended. The requested subdirectory \<open>../../etc\<close> is sanitized to \<open>etc\<close>.
  For every requested string, a target directory that the upload handler computes is the
  resolved output root or lies below it: same root, and the components of the output root
  are a prefix of its components. Where resolving finds no link on the way (the resolved
  \<open>output_dir/etc\<close> is \<open>etc\<close> under the resolved output root), the target for
  \<open>../../etc\<close> is the subdirectory \<open>etc\<close> of the output root.
\<close>

theorem upload_target_dir_guard:
  "safe_subdir ''../../etc'' = Path [] [''etc''] \<and>
   (\<forall>t. upload_target_dir E fs output_dir (safe_subdir s) = Inr t \<longrightarrow>
      (\<exists>root. fs_resolve E fs output_dir = Inr root \<and>
              anchor t = anchor root \<and> prefix (tail root) (tail t))) \<and>
   (\<forall>root. fs_resolve E fs output_dir = Inr root \<and>
           fs_resolve E fs (path_div output_dir (Path [] [''etc''])) =
             Inr (path_div root (Path [] [''etc''])) \<longrightarrow>
      upload_target_dir E fs output_dir (safe_subdir ''../../etc'') =
        Inr (path_div root (Path [] [''etc''])))"
proof -
  have b: "\<forall>t. upload_target_dir E fs output_dir (safe_subdir s) = Inr t \<longrightarrow>
      (\<exists>root. fs_resolve E fs output_dir = Inr root \<and>
              anchor t = anchor root \<and> prefix (tail root) (tail t))"
  proof (intro allI impI)
    fix t
    assume h: "upload_target_dir E fs output_dir (safe_subdir s) = Inr t"
    then obtain td root where
      td: "fs_resolve E fs (path_div output_dir (safe_subdir s)) = Inr td" and
      root: "fs_resolve E fs output_dir = Inr root" and
      t: "t = (if root \<notin> set (parents td) \<and> td \<noteq> root then root else td)"
      by (auto simp: upload_target_dir_def split: sum.splits)
    have "t = root \<or> root \<in> set (parents t)" using t by auto
    then have "anchor t = anchor root \<and> prefix (tail root) (tail t)"
      using parents_prefix [of root t] by auto
    then show "\<exists>root. fs_resolve E fs output_dir = Inr root \<and>
                 anchor t = anchor root \<and> prefix (tail root) (tail t)"
      using root by simp
  qed
  have c: "\<forall>root. fs_resolve E fs output_dir = Inr root \<and>
           fs_resolve E fs (path_div output_dir (Path [] [''etc''])) =
             Inr (path_div root (Path [] [''etc''])) \<longrightarrow>
      upload_target_dir E fs output_dir (safe_subdir ''../../etc'') =
        Inr (path_div root (Path [] [''etc'']))"
  proof (intro allI impI)
    fix root
    assume h: "fs_resolve E fs output_dir = Inr root \<and>
           fs_resolve E fs (path_div output_dir (Path [] [''etc''])) =
             Inr (path_div root (Path [] [''etc'']))"
    have pd: "path_div root (Path [] [''etc'']) = Path (anchor root) (tail root @ [''etc''])"
      by (simp add: path_div_def is_absolute_def)
    have "Path (anchor root) (tail root) \<in> set (parents (path_div root (Path [] [''etc''])))"
      unfolding pd by (rule parent_of_child)
    then have "root \<in> set (parents (path_div root (Path [] [''etc''])))" by simp
    then show "upload_target_dir E fs output_dir (safe_subdir ''../../etc'') =
        Inr (path_div root (Path [] [''etc'']))"
      using h by (simp add: upload_target_dir_def safe_subdir_etc)
  qed
  show ?thesis using safe_subdir_etc b c by blast
qed

text \<open>
  Claim C2, as amended, on the in-memory file system with the output root \<open>/srv/out\<close>.
\<close>

theorem upload_target_dir_guard_witness:
  "fs_resolve sim [] out_root = Inr out_root \<and>
   fs_resolve sim [] (path_div out_root (Path [] [''etc''])) =
     Inr (path_div out_root (Path [] [''etc''])) \<and>
   upload_target_dir sim [] out_root (safe_subdir ''../../etc'') =
     Inr (path_div out_root (Path [] [''etc''])) \<and>
   anchor (path_div out_root (Path [] [''etc''])) = anchor out_root \<and>
   prefix (tail out_root) (tail (path_div out_root (Path [] [''etc''])))"
proof -
  have h1: "fs_resolve sim [] out_root = Inr out_root"
    by code_simp
  have h2: "fs_resolve sim [] (path_div out_root (Path [] [''etc''])) =
     Inr (path_div out_root (Path [] [''etc'']))"
    by code_simp
  have t: "upload_target_dir sim [] out_root (safe_subdir ''../../etc'') =
     Inr (path_div out_root (Path [] [''etc'']))"
    using h1 h2 upload_target_dir_guard [of sim "[]" out_root "''../../etc''"] by blast
  have p: "anchor (path_div out_root (Path [] [''etc''])) = anchor out_root \<and>
     prefix (tail out_root) (tail (path_div out_root (Path [] [''etc''])))"
    using h1 t upload_target_dir_guard [of sim "[]" out_root "''../../etc''"] by auto
  show ?thesis using h1 h2 t p by blast
qed

text \<open>
  Claim C2 as stated fails: with the output root \<open>/srv/out\<close> and no links, the requested
  subdirectory \<open>../../etc\<close> gives the target \<open>/srv/out/etc\<close>, which is not the output
  root.
\<close>

theorem subdir_etc_not_root:
  "upload_target_dir sim [] out_root (safe_subdir ''../../etc'') =
     Inr (Path ''/'' [''srv'', ''out'', ''etc'']) \<and>
   fs_resolve sim [] out_root = Inr (Path ''/'' [''srv'', ''out'']) \<and>
   upload_target_dir sim [] out_root (safe_subdir ''../../etc'') \<noteq> fs_resolve sim [] out_root"
  by code_simp

section \<open>Quality of an upload\<close>



section \<open>The conversion engine\<close>



lemma exists_message: "str_in ''exists'' ''Output file already exists and overwrite is disabled.''"
  by code_simp

text \<open>
  Claim C4. When the output path exists and overwriting is off, \<open>convert_image\<close> returns
  a failure whose message contains \<open>exists\<close>, and the state of the file system is the one
  it was called on.
\<close>

theorem convert_image_existing_output:
  assumes "fs_exists E fs output_path = Inr True" and "\<not> ovw"
  shows "\<exists>r. convert_image E inp output_path q ovw fs = Inr (r, fs) \<and>
             \<not> success r \<and> str_in ''exists'' (message r)"
proof -
  have "convert_image E inp output_path q ovw fs =
          Inr (failure ''Output file already exists and overwrite is disabled.'', fs)"
    using assms by (simp add: convert_image_def)
  then show ?thesis using exists_message by (simp add: failure_def)
qed

text \<open>
  Claim C4 on a directory that holds \<open>a.jpg\<close> and \<open>a.webp\<close>.
\<close>

theorem convert_image_existing_output_witness:
  "fs_exists sim fs_locked a_webp = Inr True \<and>
   convert_image sim (FromPath a_jpg) a_webp 80 False fs_locked =
     Inr (failure ''Output file already exists and overwrite is disabled.'', fs_locked) \<and>
   \<not> success (failure ''Output file already exists and overwrite is disabled.'') \<and>
   str_in ''exists'' (message (failure ''Output file already exists and overwrite is disabled.''))"
proof -
  have h: "fs_exists sim fs_locked a_webp = Inr True" by code_simp
  have c: "convert_image sim (FromPath a_jpg) a_webp 80 False fs_locked =
     Inr (failure ''Output file already exists and overwrite is disabled.'', fs_locked)"
    by code_simp
  show ?thesis
    using h c convert_image_existing_output [OF h, of False "FromPath a_jpg" 80] by auto
qed

text \<open>
  What \<open>convert_image\<close> catches. Once \<open>output_path.exists()\<close> has answered, the call
  returns a result: a success, which is what the body of its \<open>try\<close> returned; or the
  failure for an existing output; or, when an exception leaves the body of the \<open>try\<close>, a
  failure whose message is \<open>Error during conversion: \<close> followed by the text of that
  exception. An exception of \<open>output_path.exists()\<close> itself reaches the caller.
\<close>

lemma convert_image_catches:
  assumes "fs_exists E fs output_path = Inr ex"
  shows "\<exists>r fs'. convert_image E inp output_path q ovw fs = Inr (r, fs') \<and>
      ((success r \<and> convert_image_try E inp output_path q fs = Inr (r, fs')) \<or>
       (r = failure ''Output file already exists and overwrite is disabled.'' \<and> fs' = fs \<and>
        ex \<and> \<not> ovw) \<or>
       (\<exists>e. convert_image_try E inp output_path q fs = Inl (e, fs') \<and>
            r = failure (''Error during conversion: '' @ e)))"
proof (cases "ex \<and> \<not> ovw")
  case True
  then show ?thesis using assms by (simp add: convert_image_def)
next
  case False
  show ?thesis
  proof (cases "convert_image_try E inp output_path q fs")
    case (Inl x)
    then show ?thesis using False assms by (cases x) (auto simp: convert_image_def)
  next
    case (Inr y)
    then have "success (fst y)"
      by (auto simp: convert_image_try_def encode_and_measure_def
               split: input_data.splits sum.splits prod.splits option.splits)
    then show ?thesis using False Inr assms by (cases y) (auto simp: convert_image_def)
  qed
qed

lemma convert_image_decode_failure:
  assumes "fs_exists E fs output_path = Inr ex" and "\<not> (ex \<and> \<not> ovw)"
    and "image_open_bytes E data = Inl e"
  shows "convert_image E (FromBytes data) output_path q ovw fs =
           Inr (failure (''Error during conversion: '' @ e), fs)"
  using assms by (auto simp: convert_image_def convert_image_try_def)

lemma convert_image_exists_raises:
  assumes "fs_exists E fs output_path = Inl e"
  shows "convert_image E inp output_path q ovw fs = Inl (e, fs)"
  using assms by (simp add: convert_image_def)

lemma convert_image_corrupt_bytes:
  "convert_image sim (FromBytes [9, 9]) new_webp 80 False fs_corrupt =
     Inr (failure ''Error during conversion: cannot identify image file'', fs_corrupt) \<and>
   convert_image sim (FromPath missing_jpg) new_webp 80 False fs_corrupt =
     Inr (failure ''Error during conversion: No such file or directory'', fs_corrupt) \<and>
   convert_image sim (FromPath a_jpg) new_webp 80 False fs_corrupt =
     Inr (failure ''Error during conversion: cannot identify image file'', fs_corrupt)"
  by code_simp

text \<open>
  Claim C7 fails in \<open>convert_image\<close> of \<open>imgtowebp/core.py\<close>. For an output path in a
  directory that refuses to be searched, \<open>output_path.exists()\<close> raises a
  \<open>PermissionError\<close>; the call stands before the \<open>try\<close>, so that the exception reaches
  the caller, for image data that would convert, with overwriting off and with overwriting
  on.
\<close>

theorem convert_image_raises_from_exists:
  "fs_exists sim fs_vault vault_webp = Inl ''Permission denied'' \<and>
   image_open_bytes sim [1, 0] = Inr \<lparr>mode = ''RGB'', bands = [''R'', ''G'', ''B'']\<rparr> \<and>
   convert_image sim (FromBytes [1, 0]) vault_webp 80 False fs_vault =
     Inl (''Permission denied'', fs_vault) \<and>
   convert_image sim (FromBytes [1, 0]) vault_webp 80 True fs_vault =
     Inl (''Permission denied'', fs_vault)"
  by code_simp

section \<open>The directory walkers\<close>

lemma should_convert_name: "should_convert p \<Longrightarrow> name p \<noteq> []"
  by (auto simp: should_convert_def suffix_of_def SUPPORTED_EXTENSIONS_def py_lower_def)

lemma should_convert_dst: "should_convert p \<Longrightarrow> \<exists>dst. to_webp_path p = Some dst"
  using should_convert_name [of p] by (simp add: to_webp_path_def with_suffix_def)





text \<open>
  The loop of \<open>convert_to_webp\<close> runs to its end when neither \<open>exists\<close> nor \<open>is_file\<close>
  raises and the iterator ends without an exception: no failure of a conversion or of a
  deletion stops it.
\<close>

lemma convert_all_completes:
  assumes "\<forall>fs p. \<exists>b. fs_exists E fs p = Inr b" and "\<forall>fs p. \<exists>b. fs_is_file E fs p = Inr b"
  shows "\<exists>st' fs'. convert_all E q ovw rep ps None (st, fs) = Inr (st', fs')"
proof (induction ps arbitrary: st fs)
  case Nil
  then show ?case by simp
next
  case (Cons p ps)
  obtain is_f where f: "fs_is_file E fs p = Inr is_f" using assms(2) by blast
  show ?case
  proof (cases is_f)
    case False
    then show ?thesis using f Cons.IH by simp
  next
    case True
    have "\<exists>st1 fs1. convert_one E p q ovw rep (st, fs) = Inr (st1, fs1)"
    proof (cases "should_convert p")
      case False
      then show ?thesis by (simp add: convert_one_def)
    next
      case sc: True
      then obtain dst where dst: "to_webp_path p = Some dst" using should_convert_dst by blast
      obtain ex where ex: "fs_exists E fs dst = Inr ex" using assms(1) by blast
      obtain a b where "delete_behind_existing E p dst
          (st\<lparr>scanned := scanned st + 1, eligible := eligible st + 1,
              skipped_existing := skipped_existing st + 1\<rparr>, fs) = (a, b)"
        by (meson surj_pair)
      moreover obtain c d where "convert_and_count E p dst q rep
          (st\<lparr>scanned := scanned st + 1, eligible := eligible st + 1\<rparr>, fs) = (c, d)"
        by (meson surj_pair)
      ultimately show ?thesis using sc dst ex by (auto simp: convert_one_def Let_def)
    qed
    then obtain st1 fs1 where s: "convert_one E p q ovw rep (st, fs) = Inr (st1, fs1)" by blast
    show ?thesis using f True s Cons.IH [of st1 fs1] by simp
  qed
qed






text \<open>
  \<open>run_cli\<close> counts in \<open>scanned\<close> the files at the top of the directory only, while it
  walks the whole tree: an image in a subdirectory is eligible and not scanned.
\<close>

lemma run_cli_scans_top_level_only:
  "fst (run_cli sim args_replace fs_nested) =
     Inr \<lparr>scanned = 0, eligible = 1, converted = 1, skipped_existing = 0,
          deleted_originals = 1, failed = 0, total_input_bytes = 2,
          total_output_bytes = 4, total_deleted_bytes = 2\<rparr>"
  by code_simp

text \<open>
  Claim C6. With a quality below 0 or above 100 both command-line entry points stop with
  exit status 1 and leave the state of the file system as it was; no statistics are made
  and nothing of the environment is asked but the resolution of the directory name. When
  that resolution answers, the process stops by \<open>SystemExit\<close> with the message about the
  quality; when it raises, the process stops on that exception.
\<close>

theorem invalid_quality_exits_first:
  assumes "quality args < 0 \<or> 100 < quality args"
  shows "\<exists>stop stop'.
           main E args fs = (Inl stop, fs) \<and> run_cli E args fs = (Inl stop', fs) \<and>
           exit_status stop = 1 \<and> exit_status stop' = 1 \<and>
           (\<forall>d. fs_resolve E fs (parse_path (dir args)) = Inr d \<longrightarrow>
              stop = SystemExit 1 ''--quality must be within 0..100'' \<and>
              stop' = SystemExit 1 ''Error: --quality must be between 0 and 100'')"
proof (cases "fs_resolve E fs (parse_path (dir args))")
  case (Inl e)
  then show ?thesis by (simp add: main_def run_cli_def exit_status_def)
next
  case (Inr d)
  then show ?thesis using assms by (auto simp: main_def run_cli_def exit_status_def)
qed

text \<open>
  Claim C6 at the quality 101.
\<close>

theorem invalid_quality_exits_first_witness:
  "(quality (args_replace\<lparr>quality := 101\<rparr>) < 0 \<or> 100 < quality (args_replace\<lparr>quality := 101\<rparr>)) \<and>
   fs_resolve sim fs_locked (parse_path (dir (args_replace\<lparr>quality := 101\<rparr>))) = Inr pics \<and>
   main sim (args_replace\<lparr>quality := 101\<rparr>) fs_locked =
     (Inl (SystemExit 1 ''--quality must be within 0..100''), fs_locked) \<and>
   run_cli sim (args_replace\<lparr>quality := 101\<rparr>) fs_locked =
     (Inl (SystemExit 1 ''Error: --quality must be between 0 and 100''), fs_locked)"
proof -
  have h: "quality (args_replace\<lparr>quality := 101\<rparr>) < 0 \<or> 100 < quality (args_replace\<lparr>quality := 101\<rparr>)"
    by simp
  have r: "fs_resolve sim fs_locked (parse_path (dir (args_replace\<lparr>quality := 101\<rparr>))) = Inr pics"
    by code_simp
  show ?thesis
    using h r invalid_quality_exits_first [OF h, of sim fs_locked] by auto
qed

text \<open>
  What \<open>convert_one\<close> of \<open>convert_to_webp.py\<close> does with \<open>replace\<close> behind an existing
  \<open>.webp\<close>: an empty \<open>.webp\<close> leaves the original and the counters of deletion alone; a
  deletion adds one to \<open>deleted_originals\<close> and the size to \<open>total_deleted_bytes\<close>; a
  deletion that fails adds one to \<open>failed\<close>; in each case the step returns.
\<close>

lemma convert_one_behind_existing:
  assumes "should_convert src" and "to_webp_path src = Some dst"
    and "fs_exists E fs dst = Inr True" and "\<not> ovw"
  shows "\<exists>st' fs'. convert_one E src q ovw True (st, fs) = Inr (st', fs') \<and>
         skipped_existing st' = skipped_existing st + 1 \<and>
         (\<forall>n. fs_stat_size E fs dst = Inr n \<and> n \<le> 0 \<longrightarrow>
            fs' = fs \<and> deleted_originals st' = deleted_originals st \<and> failed st' = failed st) \<and>
         (\<forall>n m fs2. fs_stat_size E fs dst = Inr n \<and> 0 < n \<and> fs_stat_size E fs src = Inr m \<and>
                   fs_unlink E fs src = (None, fs2) \<longrightarrow>
            fs' = fs2 \<and> deleted_originals st' = deleted_originals st + 1 \<and>
            total_deleted_bytes st' = total_deleted_bytes st + m \<and> failed st' = failed st) \<and>
         (\<forall>n m e fs2. fs_stat_size E fs dst = Inr n \<and> 0 < n \<and> fs_stat_size E fs src = Inr m \<and>
                   fs_unlink E fs src = (Some e, fs2) \<longrightarrow>
            failed st' = failed st + 1 \<and> deleted_originals st' = deleted_originals st)"
  using assms
  by (auto simp: convert_one_def delete_behind_existing_def Let_def
           split: sum.splits prod.splits option.splits if_splits)

text \<open>
  Claim C8 fails in \<open>run_cli\<close> of \<open>imgtowebp/cli.py\<close>. With \<open>replace\<close>, overwriting off
  and an empty \<open>a.webp\<close> next to \<open>a.jpg\<close>, \<open>run_cli\<close> deletes \<open>a.jpg\<close>, where \<open>main\<close> of
  \<open>convert_to_webp.py\<close> keeps it. With an \<open>a.jpg\<close> that cannot be deleted behind a
  \<open>a.webp\<close> of four bytes, \<open>run_cli\<close> leaves \<open>failed\<close> at 0, where \<open>main\<close> counts 1.
\<close>

theorem run_cli_deletes_behind_empty_webp:
  "run_cli sim args_replace fs_empty_webp =
     (Inr \<lparr>scanned = 2, eligible = 1, converted = 0, skipped_existing = 1,
           deleted_originals = 1, failed = 0, total_input_bytes = 0,
           total_output_bytes = 0, total_deleted_bytes = 3\<rparr>,
      [(pics, SimDir True), (a_webp, SimFile [] True)]) \<and>
   main sim args_replace fs_empty_webp =
     (Inr \<lparr>scanned = 2, eligible = 1, converted = 0, skipped_existing = 1,
           deleted_originals = 0, failed = 0, total_input_bytes = 0,
           total_output_bytes = 0, total_deleted_bytes = 0\<rparr>,
      fs_empty_webp) \<and>
   run_cli sim args_replace fs_locked =
     (Inr \<lparr>scanned = 2, eligible = 1, converted = 0, skipped_existing = 1,
           deleted_originals = 0, failed = 0, total_input_bytes = 0,
           total_output_bytes = 0, total_deleted_bytes = 0\<rparr>,
      fs_locked) \<and>
   main sim args_replace fs_locked =
     (Inr \<lparr>scanned = 2, eligible = 1, converted = 0, skipped_existing = 1,
           deleted_originals = 0, failed = 1, total_input_bytes = 0,
           total_output_bytes = 0, total_deleted_bytes = 0\<rparr>,
      fs_locked)"
  by code_simp

section \<open>The upload handlers\<close>

text \<open>
  Claim C9, as amended. An uploaded entry whose filename is missing or empty is passed
  over by both upload handlers: the step returns the results, the counters and the file
  system as they were, so that no result is made for the entry and its content is not
  read; the rest of the batch is handled as if the entry were not there.
\<close>

theorem nameless_upload_dropped:
  assumes "filename f = None \<or> filename f = Some []"
  shows "upload_one E output_dir target_dir q ovw f st = Inr st \<and>
         uploader_one E output_dir target_dir q ovw f st = Inr st \<and>
         upload_loop E output_dir target_dir q ovw (f # files) st =
           upload_loop E output_dir target_dir q ovw files st \<and>
         uploader_loop E output_dir target_dir q ovw (f # files) st =
           uploader_loop E output_dir target_dir q ovw files st"
proof -
  have a: "upload_one E output_dir target_dir q ovw f st = Inr st"
    using assms by (cases st) (auto simp: upload_one_def)
  have b: "uploader_one E output_dir target_dir q ovw f st = Inr st"
    using assms by (cases st) (auto simp: uploader_one_def)
  show ?thesis using a b by simp
qed

text \<open>
  Claim C9, as amended, on an entry with the empty filename.
\<close>

theorem nameless_upload_dropped_witness:
  "(filename nameless = None \<or> filename nameless = Some []) \<and>
   upload_one sim out_root out_root 80 False nameless (upload_acc0, []) = Inr (upload_acc0, []) \<and>
   uploader_one sim out_root out_root 80 False nameless (upload_acc0, []) = Inr (upload_acc0, [])"
proof -
  have h: "filename nameless = None \<or> filename nameless = Some []"
    by (simp add: nameless_def)
  show ?thesis
    using h nameless_upload_dropped [OF h, of sim out_root out_root 80 False "(upload_acc0, [])"]
    by simp
qed

text \<open>
  Claim C9 as stated fails: an upload of one entry with the empty filename answers with an
  empty list of results and 0 skipped, in both handlers; no result with the status
  \<open>skipped\<close> is made for the entry.
\<close>

theorem nameless_upload_no_result:
  "map_sum fst fst (upload sim out_root form0 [nameless] [(out_root, SimDir True)]) =
     Inr ([], \<lparr>files_received = 1, sum_converted = 0, sum_skipped = 0, sum_failed = 0,
               sum_subdir = ''.'', sum_overwrite = False, sum_quality = 80\<rparr>) \<and>
   map_sum fst fst (uploader_upload sim out_root form0 [nameless] [(out_root, SimDir True)]) =
     Inr ([], \<lparr>files_received = 1, sum_converted = 0, sum_skipped = 0, sum_failed = 0,
               sum_subdir = ''.'', sum_overwrite = False, sum_quality = 80\<rparr>)"
  by code_simp

end
